theory Spec2Isabelle
  imports Main
begin

section \<open>The Account service: HTTP messages\<close>

text \<open>
  The service of \<^verbatim>\<open>service/routes.py\<close> is a set of Flask route handlers over one
  resource, the Account. A handler reads the request, reads or writes the store through
  the Account model and answers with a response, or aborts with an HTTP error. In the
  model a handler takes the store and the request and returns its result together with
  the store it leaves behind; \<^verbatim>\<open>abort\<close> and every exception that the service turns into
  an error response is the \<open>Inl\<close> branch of the result.
\<close>

datatype json =
    JNull
  | JBool bool
  | JInt int
  | JString string
  | JArray "json list"
  | JObject "(string \<times> json) list"

text \<open>
  A decoded JSON object is the association list of its members; \<open>map_of\<close> is the
  dictionary lookup.
\<close>

text \<open>
  The status codes of \<^verbatim>\<open>service.common.status\<close>, with their standard values (the
  values that the interface table of the specification gives).
\<close>

abbreviation HTTP_200_OK :: nat where "HTTP_200_OK \<equiv> 200"
abbreviation HTTP_201_CREATED :: nat where "HTTP_201_CREATED \<equiv> 201"
abbreviation HTTP_204_NO_CONTENT :: nat where "HTTP_204_NO_CONTENT \<equiv> 204"
abbreviation HTTP_400_BAD_REQUEST :: nat where "HTTP_400_BAD_REQUEST \<equiv> 400"
abbreviation HTTP_404_NOT_FOUND :: nat where "HTTP_404_NOT_FOUND \<equiv> 404"
abbreviation HTTP_415_UNSUPPORTED_MEDIA_TYPE :: nat where "HTTP_415_UNSUPPORTED_MEDIA_TYPE \<equiv> 415"
abbreviation HTTP_500_INTERNAL_SERVER_ERROR :: nat where "HTTP_500_INTERNAL_SERVER_ERROR \<equiv> 500"

text \<open>
  What \<^verbatim>\<open>abort(code, description)\<close> raises: the status code and the description. The
  descriptions are kept structured: \<open>ContentTypeMustBe m\<close> is
  \<^verbatim>\<open>f"Content-Type must be {media_type}"\<close>, \<open>AccountNotFound i\<close> is
  \<^verbatim>\<open>f"Account with id {account_id} not found."\<close>; the other three are raised below
  the handlers (a body that is not JSON, a rejected deserialization, a URL that cannot
  be built or matched).
\<close>

datatype description =
    ContentTypeMustBe string
  | AccountNotFound int
  | BadJson
  | InvalidAccount
  | NoSuchUrl

datatype error = Abort (code: nat) (descr: description)

text \<open>
  The URLs of the routing table: \<^verbatim>\<open>/health\<close>, \<^verbatim>\<open>/\<close>, \<^verbatim>\<open>/accounts\<close> and
  \<^verbatim>\<open>/accounts/<n>\<close> with the number \<open>n\<close> written in decimal.
\<close>

datatype url = Health | Index | Accounts | AccountsId int

record request =
  headers :: "(string \<times> string) list"
  body :: "json option"

text \<open>
  The \<open>headers\<close> of a request are listed under their canonical names. The
  \<open>body\<close> of a request is its decoded JSON, or \<open>None\<close> when the bytes sent are
  not JSON. A response has a status code, a body (\<open>None\<close> is the empty body) and, where
  the handler sets one, the \<^verbatim>\<open>Location\<close> header.
\<close>

record response =
  status_code :: nat
  data :: "json option"
  location :: "url option"

type_synonym result = "error + response"

text \<open>The status code that the client sees.\<close>

definition status_of :: "result \<Rightarrow> nat" where
  "status_of r = (case r of Inl e \<Rightarrow> code e | Inr resp \<Rightarrow> status_code resp)"

text \<open>
  \<^verbatim>\<open>request.get_json()\<close>, called once the content type has been checked: the decoded
  body, or Flask's 400 when the body does not decode.
\<close>

definition get_json :: "request \<Rightarrow> error + json" where
  "get_json req =
     (case body req of
        None \<Rightarrow> Inl (Abort HTTP_400_BAD_REQUEST BadJson)
      | Some j \<Rightarrow> Inr j)"

text \<open>
  \<^verbatim>\<open>check_content_type\<close>: the header is compared with the media type by \<^verbatim>\<open>!=\<close>;
  \<^verbatim>\<open>request.headers.get\<close> gives \<^verbatim>\<open>None\<close> for a header that was not sent.
\<close>

definition check_content_type :: "request \<Rightarrow> string \<Rightarrow> error + unit" where
  "check_content_type req media_type =
     (if map_of (headers req) ''Content-Type'' \<noteq> Some media_type
      then Inl (Abort HTTP_415_UNSUPPORTED_MEDIA_TYPE (ContentTypeMustBe media_type))
      else Inr ())"

section \<open>The Account model and its store\<close>

text \<open>
  \<^verbatim>\<open>service/models.py\<close> is not among the sources at hand. The definitions of this
  section follow the specification's data model and its description of the operations.
\<close>

text \<open>
  Modelled from the spec: the class \<^verbatim>\<open>Account\<close> of \<^verbatim>\<open>service.models\<close>. An account
  has an integer id assigned by the store on creation (\<open>None\<close> until then), a required
  name and email, and the optional profile fields address, phone and date joined, flat
  scalars that default to absent.
\<close>

record account =
  id_field :: "int option"
  name :: string
  email :: string
  address :: "string option"
  phone :: "string option"
  date_joined :: "string option"

text \<open>
  Modelled from the spec: \<^verbatim>\<open>Account()\<close>, the instance before deserialization. Its name
  and email are unset; deserialization either fails or assigns both.
\<close>

definition Account :: account where
  "Account = \<lparr>id_field = None, name = [], email = [], address = None, phone = None,
     date_joined = None\<rparr>"

text \<open>
  Modelled from the spec: the store, one table of Account records keyed by id. The
  store assigns the ids from a counter, so that an id is never given twice.
\<close>

record store =
  rows :: "account list"
  next_id :: int

definition empty_store :: store where
  "empty_store = \<lparr>rows = [], next_id = 1\<rparr>"

text \<open>
  The stores that the service can reach: the counter starts at 1, the ids of the table
  are distinct and were all given by the counter. Every run of requests from the empty
  store ends in such a store (\<open>store_ok_run\<close> below).
\<close>

definition store_ok :: "store \<Rightarrow> bool" where
  "store_ok s =
     (1 \<le> next_id s \<and>
      distinct (map id_field (rows s)) \<and>
      list_all (\<lambda>a. case id_field a of None \<Rightarrow> False | Some i \<Rightarrow> 1 \<le> i \<and> i < next_id s)
        (rows s))"

text \<open>Modelled from the spec: \<^verbatim>\<open>Account.serialize\<close>, the record as a JSON object.\<close>

definition opt_json :: "string option \<Rightarrow> json" where
  "opt_json v = (case v of None \<Rightarrow> JNull | Some x \<Rightarrow> JString x)"

definition serialize :: "account \<Rightarrow> json" where
  "serialize a =
     JObject
       [(''id'', case id_field a of None \<Rightarrow> JNull | Some i \<Rightarrow> JInt i),
        (''name'', JString (name a)),
        (''email'', JString (email a)),
        (''address'', opt_json (address a)),
        (''phone'', opt_json (phone a)),
        (''date_joined'', opt_json (date_joined a))]"

text \<open>
  Modelled from the spec: the decoding of one member of the body. A required member
  must be present and a string. An optional member is absent or null (the default) or
  a string; anything else is a type mismatch. The outer \<open>None\<close> is the rejection.
\<close>

definition required :: "(string \<times> json) list \<Rightarrow> string \<Rightarrow> string option" where
  "required kvs k = (case map_of kvs k of Some (JString v) \<Rightarrow> Some v | _ \<Rightarrow> None)"

definition optional :: "(string \<times> json) list \<Rightarrow> string \<Rightarrow> string option option" where
  "optional kvs k =
     (case map_of kvs k of
        None \<Rightarrow> Some None
      | Some JNull \<Rightarrow> Some None
      | Some (JString v) \<Rightarrow> Some (Some v)
      | Some _ \<Rightarrow> None)"

text \<open>
  Modelled from the spec: \<^verbatim>\<open>Account.deserialize\<close>. The body is decoded into the
  instance; a body that is not an object, or with a required field missing or
  mistyped, is rejected with 400 and the instance is not returned. Every field of the
  record except the id is assigned from the body (a full replace of the parsed
  fields).
\<close>

definition deserialize :: "account \<Rightarrow> json \<Rightarrow> error + account" where
  "deserialize a d =
     (case d of
        JObject kvs \<Rightarrow>
          (case (required kvs ''name'', required kvs ''email'') of
             (Some n, Some e) \<Rightarrow>
               (case (optional kvs ''address'', optional kvs ''phone'',
                      optional kvs ''date_joined'') of
                  (Some ad, Some ph, Some dj) \<Rightarrow>
                    Inr (a\<lparr>name := n, email := e, address := ad, phone := ph,
                          date_joined := dj\<rparr>)
                | _ \<Rightarrow> Inl (Abort HTTP_400_BAD_REQUEST InvalidAccount))
           | _ \<Rightarrow> Inl (Abort HTTP_400_BAD_REQUEST InvalidAccount))
      | _ \<Rightarrow> Inl (Abort HTTP_400_BAD_REQUEST InvalidAccount))"

text \<open>
  Modelled from the spec: \<^verbatim>\<open>Account.find\<close> and \<^verbatim>\<open>Account.all\<close>, lookups that leave
  the store as it is.
\<close>

definition Account_find :: "store \<Rightarrow> int \<Rightarrow> account option" where
  "Account_find s account_id = List.find (\<lambda>a. id_field a = Some account_id) (rows s)"

definition Account_all :: "store \<Rightarrow> account list" where
  "Account_all s = rows s"

text \<open>
  Modelled from the spec: \<^verbatim>\<open>account.create()\<close>, \<^verbatim>\<open>account.update()\<close> and
  \<^verbatim>\<open>account.delete()\<close>. Creation gives the instance the next id of the store and adds
  one record; update replaces the record of the instance's id by the instance; delete
  removes it.
\<close>

definition Account_create :: "account \<Rightarrow> store \<Rightarrow> account \<times> store" where
  "Account_create a s =
     (let a' = a\<lparr>id_field := Some (next_id s)\<rparr>
      in (a', s\<lparr>rows := rows s @ [a'], next_id := next_id s + 1\<rparr>))"

definition Account_update :: "account \<Rightarrow> store \<Rightarrow> store" where
  "Account_update a s =
     s\<lparr>rows := map (\<lambda>b. if id_field b = id_field a then a else b) (rows s)\<rparr>"

definition Account_delete :: "account \<Rightarrow> store \<Rightarrow> store" where
  "Account_delete a s = s\<lparr>rows := filter (\<lambda>b. id_field b \<noteq> id_field a) (rows s)\<rparr>"

section \<open>The route handlers\<close>

text \<open>
  \<^verbatim>\<open>url_for("get_account", account_id=..., _external=True)\<close>: the URL of the route
  \<^verbatim>\<open>/accounts/<int:account_id>\<close>. An instance without an id has no URL.
\<close>

definition url_for_get_account :: "int option \<Rightarrow> error + url" where
  "url_for_get_account account_id =
     (case account_id of
        None \<Rightarrow> Inl (Abort HTTP_500_INTERNAL_SERVER_ERROR NoSuchUrl)
      | Some i \<Rightarrow> Inr (AccountsId i))"

definition health :: "store \<Rightarrow> result \<times> store" where
  "health s =
     (Inr \<lparr>status_code = HTTP_200_OK,
           data = Some (JObject [(''status'', JString ''OK'')]),
           location = None\<rparr>, s)"

definition index :: "store \<Rightarrow> result \<times> store" where
  "index s =
     (Inr \<lparr>status_code = HTTP_200_OK,
           data = Some (JObject [(''name'', JString ''Account REST API Service''),
                                 (''version'', JString ''1.0'')]),
           location = None\<rparr>, s)"

definition create_account :: "store \<Rightarrow> request \<Rightarrow> result \<times> store" where
  "create_account s req =
     (case check_content_type req ''application/json'' of
        Inl e \<Rightarrow> (Inl e, s)
      | Inr _ \<Rightarrow>
          (case get_json req of
             Inl e \<Rightarrow> (Inl e, s)
           | Inr account_data \<Rightarrow>
               (case deserialize Account account_data of
                  Inl e \<Rightarrow> (Inl e, s)
                | Inr account \<Rightarrow>
                    (case Account_create account s of
                       (account', s') \<Rightarrow>
                         (case url_for_get_account (id_field account') of
                            Inl e \<Rightarrow> (Inl e, s')
                          | Inr loc \<Rightarrow>
                              (Inr \<lparr>status_code = HTTP_201_CREATED,
                                    data = Some (serialize account'),
                                    location = Some loc\<rparr>, s'))))))"

definition list_accounts :: "store \<Rightarrow> result \<times> store" where
  "list_accounts s =
     (let accounts = Account_all s;
          results = map serialize accounts
      in (Inr \<lparr>status_code = HTTP_200_OK, data = Some (JArray results), location = None\<rparr>, s))"

definition get_account :: "store \<Rightarrow> int \<Rightarrow> result \<times> store" where
  "get_account s account_id =
     (case Account_find s account_id of
        None \<Rightarrow> (Inl (Abort HTTP_404_NOT_FOUND (AccountNotFound account_id)), s)
      | Some account \<Rightarrow>
          (Inr \<lparr>status_code = HTTP_200_OK, data = Some (serialize account),
                location = None\<rparr>, s))"

definition update_account :: "store \<Rightarrow> int \<Rightarrow> request \<Rightarrow> result \<times> store" where
  "update_account s account_id req =
     (case check_content_type req ''application/json'' of
        Inl e \<Rightarrow> (Inl e, s)
      | Inr _ \<Rightarrow>
          (case Account_find s account_id of
             None \<Rightarrow> (Inl (Abort HTTP_404_NOT_FOUND (AccountNotFound account_id)), s)
           | Some account \<Rightarrow>
               (case get_json req of
                  Inl e \<Rightarrow> (Inl e, s)
                | Inr account_data \<Rightarrow>
                    (case deserialize account account_data of
                       Inl e \<Rightarrow> (Inl e, s)
                     | Inr account' \<Rightarrow>
                         (Inr \<lparr>status_code = HTTP_200_OK,
                               data = Some (serialize account'),
                               location = None\<rparr>,
                          Account_update account' s)))))"

definition delete_account :: "store \<Rightarrow> int \<Rightarrow> result \<times> store" where
  "delete_account s account_id =
     (case Account_find s account_id of
        Some account \<Rightarrow>
          (Inr \<lparr>status_code = HTTP_204_NO_CONTENT, data = None, location = None\<rparr>,
           Account_delete account s)
      | None \<Rightarrow>
          (Inr \<lparr>status_code = HTTP_204_NO_CONTENT, data = None, location = None\<rparr>, s))"

text \<open>
  The \<^verbatim>\<open>GET\<close> side of the routing table (the four \<^verbatim>\<open>@app.route\<close> decorators that
  accept \<^verbatim>\<open>GET\<close>). The converter \<^verbatim>\<open><int:account_id>\<close> matches digits only, so a URL
  with a negative number matches no route.
\<close>

definition http_get :: "store \<Rightarrow> url \<Rightarrow> result \<times> store" where
  "http_get s u =
     (case u of
        Health \<Rightarrow> health s
      | Index \<Rightarrow> index s
      | Accounts \<Rightarrow> list_accounts s
      | AccountsId i \<Rightarrow>
          (if i < 0 then (Inl (Abort HTTP_404_NOT_FOUND NoSuchUrl), s)
           else get_account s i))"

section \<open>Sequences of requests\<close>

text \<open>
  A client's sequence of Create, Update and Delete requests, run in order from a store.
  Beside the final store the run counts the records created (the Create requests
  answered with 201) and the records deleted (the Delete requests that found their
  record).
\<close>

datatype op = Create request | Update int request | Delete int

definition apply_op :: "store \<Rightarrow> op \<Rightarrow> result \<times> store" where
  "apply_op s x =
     (case x of
        Create req \<Rightarrow> create_account s req
      | Update account_id req \<Rightarrow> update_account s account_id req
      | Delete account_id \<Rightarrow> delete_account s account_id)"

fun run :: "store \<Rightarrow> op list \<Rightarrow> store" where
  "run s [] = s"
| "run s (x # xs) = run (snd (apply_op s x)) xs"

definition creates :: "store \<Rightarrow> op \<Rightarrow> bool" where
  "creates s x =
     (case x of
        Create req \<Rightarrow> status_of (fst (create_account s req)) = HTTP_201_CREATED
      | Update _ _ \<Rightarrow> False
      | Delete _ \<Rightarrow> False)"

definition deletes :: "store \<Rightarrow> op \<Rightarrow> bool" where
  "deletes s x =
     (case x of
        Create _ \<Rightarrow> False
      | Update _ _ \<Rightarrow> False
      | Delete account_id \<Rightarrow> Account_find s account_id \<noteq> None)"

fun created :: "store \<Rightarrow> op list \<Rightarrow> nat" where
  "created s [] = 0"
| "created s (x # xs) =
     (if creates s x then 1 else 0) + created (snd (apply_op s x)) xs"

fun deleted :: "store \<Rightarrow> op list \<Rightarrow> nat" where
  "deleted s [] = 0"
| "deleted s (x # xs) =
     (if deletes s x then 1 else 0) + deleted (snd (apply_op s x)) xs"

section \<open>Sample requests and stores\<close>

text \<open>
  The concrete inputs at which the theorems below are instantiated: the account of the
  specification's scenario, the requests that create and update it, a request whose
  body lacks the name, a request sent as \<^verbatim>\<open>text/html\<close>, and a store that holds the one
  account.
\<close>

definition jane_json :: json where
  "jane_json =
     JObject [(''name'', JString ''Jane Doe''), (''email'', JString ''jane@example.com'')]"

definition jane_request :: request where
  "jane_request = \<lparr>headers = [(''Content-Type'', ''application/json'')], body = Some jane_json\<rparr>"

definition html_request :: request where
  "html_request = \<lparr>headers = [(''Content-Type'', ''text/html'')], body = Some jane_json\<rparr>"

definition jane_update :: request where
  "jane_update =
     \<lparr>headers = [(''Content-Type'', ''application/json'')],
      body = Some (JObject [(''name'', JString ''Updated Name''),
                            (''email'', JString ''jane@example.com''),
                            (''phone'', JString ''555-0100'')])\<rparr>"

definition no_name :: request where
  "no_name =
     \<lparr>headers = [(''Content-Type'', ''application/json'')],
      body = Some (JObject [(''email'', JString ''jane@example.com'')])\<rparr>"

definition no_name_charset :: request where
  "no_name_charset =
     \<lparr>headers = [(''Content-Type'', ''application/json; charset=utf-8'')],
      body = Some (JObject [(''email'', JString ''jane@example.com'')])\<rparr>"

definition jane :: account where
  "jane = \<lparr>id_field = Some 1, name = ''Jane Doe'', email = ''jane@example.com'',
     address = None, phone = None, date_joined = None\<rparr>"

definition jane_updated :: account where
  "jane_updated = \<lparr>id_field = Some 1, name = ''Updated Name'', email = ''jane@example.com'',
     address = None, phone = Some ''555-0100'', date_joined = None\<rparr>"

definition store1 :: store where
  "store1 = \<lparr>rows = [jane], next_id = 2\<rparr>"

definition sample_ops :: "op list" where
  "sample_ops =
     [Create jane_request, Create no_name, Delete 999999, Create jane_request,
      Update 2 jane_update, Delete 1]"

section \<open>Lemmas about the model and the store\<close>

lemma check_content_type_fails:
  "map_of (headers req) ''Content-Type'' \<noteq> Some m \<Longrightarrow>
   check_content_type req m = Inl (Abort 415 (ContentTypeMustBe m))"
  by (simp add: check_content_type_def)

lemma check_content_type_passes:
  "map_of (headers req) ''Content-Type'' = Some m \<Longrightarrow> check_content_type req m = Inr ()"
  by (simp add: check_content_type_def)

lemma Account_find_Some:
  "Account_find s i = Some a \<Longrightarrow> id_field a = Some i \<and> a \<in> set (rows s)"
  by (auto simp: Account_find_def find_Some_iff)

lemma Account_find_None:
  "Account_find s i = None \<longleftrightarrow> Some i \<notin> set (map id_field (rows s))"
  by (force simp: Account_find_def find_None_iff)

lemma store_ok_fresh: "store_ok s \<Longrightarrow> Account_find s (next_id s) = None"
  by (auto simp: store_ok_def Account_find_None list_all_iff split: option.splits)

lemma find_append_new:
  "List.find P xs = None \<Longrightarrow> P x \<Longrightarrow> List.find P (xs @ [x]) = Some x"
  by (induction xs) (auto split: if_splits)

lemma Account_find_create:
  "Account_find s (next_id s) = None \<Longrightarrow>
   Account_find (snd (Account_create a s)) (next_id s) = Some (fst (Account_create a s))"
  by (simp add: Account_find_def Account_create_def Let_def find_append_new)

lemma store_ok_empty: "store_ok empty_store"
  by (simp add: store_ok_def empty_store_def)

lemma store_ok_create: "store_ok s \<Longrightarrow> store_ok (snd (Account_create a s))"
  by (auto simp: store_ok_def Account_create_def Let_def list_all_iff split: option.splits)

lemma store_ok_delete: "store_ok s \<Longrightarrow> store_ok (Account_delete a s)"
  by (auto simp: store_ok_def Account_delete_def list_all_iff distinct_map_filter
      split: option.splits)

lemma deserialize_id: "deserialize a d = Inr a' \<Longrightarrow> id_field a' = id_field a"
  by (auto simp: deserialize_def split: json.splits option.splits)

lemma deserialize_replace:
  "deserialize a d = Inr a' \<Longrightarrow>
   \<exists>b. deserialize Account d = Inr b \<and> a' = b\<lparr>id_field := id_field a\<rparr>"
  by (auto simp: deserialize_def Account_def split: json.splits option.splits)

lemma deserialize_fields:
  "deserialize a (JObject kvs) = Inr a' \<Longrightarrow>
   map_of kvs ''name'' = Some (JString (name a')) \<and>
   map_of kvs ''email'' = Some (JString (email a')) \<and>
   optional kvs ''address'' = Some (address a') \<and>
   optional kvs ''phone'' = Some (phone a') \<and>
   optional kvs ''date_joined'' = Some (date_joined a')"
  by (auto simp: deserialize_def required_def split: json.splits option.splits)

lemma deserialize_missing_name:
  "map_of kvs ''name'' = None \<Longrightarrow>
   deserialize a (JObject kvs) = Inl (Abort 400 InvalidAccount)"
  by (simp add: deserialize_def required_def)

lemma map_id_field_update:
  "id_field a' = k \<Longrightarrow>
   map id_field (map (\<lambda>b. if id_field b = k then a' else b) xs) = map id_field xs"
  by (induction xs) auto

lemma store_ok_update:
  assumes ok: "store_ok s" and f: "Account_find s i = Some a" and i: "id_field a' = Some i"
  shows "store_ok (Account_update a' s)"
proof -
  have m: "map id_field (rows (Account_update a' s)) = map id_field (rows s)"
    using map_id_field_update [OF i, of "rows s"] by (simp add: Account_update_def i)
  from f have "a \<in> set (rows s)" "id_field a = Some i"
    by (simp_all add: Account_find_Some)
  with ok have r: "1 \<le> i \<and> i < next_id s"
    by (auto simp: store_ok_def list_all_iff split: option.splits)
  have n: "next_id (Account_update a' s) = next_id s"
    by (simp add: Account_update_def)
  have l: "list_all (\<lambda>a. case id_field a of None \<Rightarrow> False
             | Some j \<Rightarrow> 1 \<le> j \<and> j < next_id (Account_update a' s))
          (rows (Account_update a' s))"
    unfolding n using ok r i by (auto simp: store_ok_def Account_update_def list_all_iff)
  from ok have "1 \<le> next_id (Account_update a' s)"
    unfolding n by (simp add: store_ok_def)
  moreover from ok have "distinct (map id_field (rows (Account_update a' s)))"
    unfolding m by (simp add: store_ok_def)
  ultimately show ?thesis
    unfolding store_ok_def using l by blast
qed

lemma filter_one:
  "distinct (map f xs) \<Longrightarrow> x \<in> set xs \<Longrightarrow>
   Suc (length (filter (\<lambda>b. f b \<noteq> f x) xs)) = length xs"
proof (induction xs)
  case Nil
  then show ?case by simp
next
  case (Cons y ys)
  show ?case
  proof (cases "f y = f x")
    case True
    with Cons.prems have "\<forall>b\<in>set ys. f b \<noteq> f x"
      by (metis distinct.simps(2) image_eqI list.simps(9) set_map)
    then have "filter (\<lambda>b. f b \<noteq> f x) ys = ys"
      by (simp add: filter_id_conv)
    with True show ?thesis by simp
  next
    case False
    with Cons show ?thesis by auto
  qed
qed

lemma Account_delete_length:
  "store_ok s \<Longrightarrow> Account_find s i = Some a \<Longrightarrow>
   Suc (length (rows (Account_delete a s))) = length (rows s)"
proof -
  assume ok: "store_ok s" and f: "Account_find s i = Some a"
  from ok have "distinct (map id_field (rows s))"
    by (simp add: store_ok_def)
  moreover from f have "a \<in> set (rows s)"
    by (simp add: Account_find_Some)
  ultimately show ?thesis
    by (simp add: Account_delete_def filter_one)
qed

lemma Account_find_delete:
  "Account_find s i = Some a \<Longrightarrow> Account_find (Account_delete a s) i = None"
  by (auto simp: Account_find_None Account_delete_def dest: Account_find_Some)

section \<open>Lemmas about Create\<close>

lemma create_account_ok:
  assumes "map_of (headers req) ''Content-Type'' = Some ''application/json''"
    and "body req = Some d" and "deserialize Account d = Inr a"
  shows "create_account s req =
    (Inr \<lparr>status_code = 201, data = Some (serialize (a\<lparr>id_field := Some (next_id s)\<rparr>)),
          location = Some (AccountsId (next_id s))\<rparr>,
     snd (Account_create a s))"
  using assms
  by (simp add: create_account_def check_content_type_def get_json_def Account_create_def Let_def
      url_for_get_account_def)

lemma create_account_Inr:
  assumes "create_account s req = (Inr resp, s')"
  shows "\<exists>d a. map_of (headers req) ''Content-Type'' = Some ''application/json'' \<and>
           body req = Some d \<and> deserialize Account d = Inr a"
  using assms
  by (auto simp: create_account_def check_content_type_def get_json_def
      split: if_splits option.splits sum.splits)

lemma create_account_Inl:
  assumes "create_account s req = (Inl e, s')"
  shows "s' = s"
  using assms
  by (auto simp: create_account_def check_content_type_def get_json_def Account_create_def Let_def
      url_for_get_account_def split: if_splits option.splits sum.splits)

lemma Account_create_rows:
  "snd (Account_create a s) =
     s\<lparr>rows := rows s @ [a\<lparr>id_field := Some (next_id s)\<rparr>], next_id := next_id s + 1\<rparr>"
  "fst (Account_create a s) = a\<lparr>id_field := Some (next_id s)\<rparr>"
  by (simp_all add: Account_create_def Let_def)

lemma deserialize_ok:
  assumes "map_of kvs ''name'' = Some (JString n)" and "map_of kvs ''email'' = Some (JString e)"
    and "optional kvs ''address'' = Some ad" and "optional kvs ''phone'' = Some ph"
    and "optional kvs ''date_joined'' = Some dj"
  shows "deserialize a (JObject kvs) =
     Inr \<lparr>id_field = id_field a, name = n, email = e, address = ad, phone = ph,
          date_joined = dj\<rparr>"
  using assms by (simp add: deserialize_def required_def)

lemma create_account_cases:
  "(\<exists>e. create_account s req = (Inl e, s) \<and> code e \<noteq> 201) \<or>
   (\<exists>a. create_account s req =
      (Inr \<lparr>status_code = 201, data = Some (serialize (fst (Account_create a s))),
            location = Some (AccountsId (next_id s))\<rparr>, snd (Account_create a s)))"
  by (auto simp: create_account_def check_content_type_def get_json_def Account_create_def
      Let_def url_for_get_account_def deserialize_def
      split: if_splits option.splits sum.splits json.splits)

section \<open>Lemmas about Update\<close>

lemma find_map_replace:
  "List.find (\<lambda>b. g b = k) xs = Some a \<Longrightarrow> g a' = k \<Longrightarrow>
   List.find (\<lambda>b. g b = k) (map (\<lambda>b. if g b = k then a' else b) xs) = Some a'"
  by (induction xs) (auto split: if_splits)

lemma find_map_other:
  "g a' = k \<Longrightarrow> j \<noteq> k \<Longrightarrow>
   List.find (\<lambda>b. g b = j) (map (\<lambda>b. if g b = k then a' else b) xs) =
   List.find (\<lambda>b. g b = j) xs"
  by (induction xs) auto

lemma Account_find_update:
  "Account_find s i = Some a \<Longrightarrow> id_field a' = Some i \<Longrightarrow>
   Account_find (Account_update a' s) i = Some a'"
  using find_map_replace [of id_field "Some i" "rows s" a a']
  by (simp add: Account_find_def Account_update_def)

lemma Account_find_update_other:
  "id_field a' = Some i \<Longrightarrow> j \<noteq> i \<Longrightarrow>
   Account_find (Account_update a' s) j = Account_find s j"
  using find_map_other [of id_field a' "Some i" "Some j" "rows s"]
  by (simp add: Account_find_def Account_update_def)

lemma update_account_store:
  "snd (update_account s i req) = s \<or>
   (\<exists>a r. Account_find s i = Some a \<and> id_field r = Some i \<and>
          snd (update_account s i req) = Account_update r s)"
proof (cases "\<exists>a d r. Account_find s i = Some a \<and> check_content_type req ''application/json'' = Inr () \<and>
    get_json req = Inr d \<and> deserialize a d = Inr r")
  case True
  then obtain a d r where f: "Account_find s i = Some a"
    and c: "check_content_type req ''application/json'' = Inr ()"
    and g: "get_json req = Inr d" and d: "deserialize a d = Inr r"
    by blast
  from f d have "id_field r = Some i"
    by (simp add: deserialize_id Account_find_Some)
  moreover from f c g d have "snd (update_account s i req) = Account_update r s"
    by (simp add: update_account_def)
  ultimately show ?thesis
    using f by blast
next
  case False
  then have "snd (update_account s i req) = s"
    by (auto simp: update_account_def split: sum.splits option.splits)
  then show ?thesis ..
qed

section \<open>The invariant of the store along a run\<close>

lemma apply_op_step:
  assumes ok: "store_ok s"
  shows "store_ok (snd (apply_op s x)) \<and>
         length (rows (snd (apply_op s x))) + (if deletes s x then 1 else 0) =
         length (rows s) + (if creates s x then 1 else 0)"
proof (cases x)
  case (Create req)
  from create_account_cases [of s req] show ?thesis
  proof
    assume "\<exists>e. create_account s req = (Inl e, s) \<and> code e \<noteq> 201"
    with ok Create show ?thesis
      by (auto simp: apply_op_def creates_def deletes_def status_of_def)
  next
    assume "\<exists>a. create_account s req =
      (Inr \<lparr>status_code = 201, data = Some (serialize (fst (Account_create a s))),
            location = Some (AccountsId (next_id s))\<rparr>, snd (Account_create a s))"
    then obtain a where c: "create_account s req =
      (Inr \<lparr>status_code = 201, data = Some (serialize (fst (Account_create a s))),
            location = Some (AccountsId (next_id s))\<rparr>, snd (Account_create a s))"
      by blast
    have "length (rows (snd (Account_create a s))) = Suc (length (rows s))"
      by (simp add: Account_create_rows)
    with Create c store_ok_create [OF ok, of a] show ?thesis
      by (simp add: apply_op_def creates_def deletes_def status_of_def)
  qed
next
  case (Update i req)
  from update_account_store [of s i req] show ?thesis
  proof
    assume "snd (update_account s i req) = s"
    with ok Update show ?thesis
      by (simp add: apply_op_def creates_def deletes_def)
  next
    assume "\<exists>a r. Account_find s i = Some a \<and> id_field r = Some i \<and>
          snd (update_account s i req) = Account_update r s"
    then obtain a r where f: "Account_find s i = Some a" and r: "id_field r = Some i"
      and u: "snd (update_account s i req) = Account_update r s"
      by blast
    have "length (rows (Account_update r s)) = length (rows s)"
      by (simp add: Account_update_def)
    with Update u store_ok_update [OF ok f r] show ?thesis
      by (simp add: apply_op_def creates_def deletes_def)
  qed
next
  case (Delete i)
  show ?thesis
  proof (cases "Account_find s i")
    case None
    with ok Delete show ?thesis
      by (simp add: apply_op_def creates_def deletes_def delete_account_def)
  next
    case (Some a)
    with Delete ok Account_delete_length [OF ok Some] store_ok_delete [OF ok, of a]
    show ?thesis
      by (simp add: apply_op_def creates_def deletes_def delete_account_def)
  qed
qed

lemma run_count:
  "store_ok s \<Longrightarrow>
   store_ok (run s ops) \<and>
   length (rows (run s ops)) + deleted s ops = length (rows s) + created s ops"
proof (induction ops arbitrary: s)
  case Nil
  then show ?case by simp
next
  case (Cons x xs)
  from apply_op_step [OF Cons.prems, of x]
  have ok': "store_ok (snd (apply_op s x))"
    and step: "length (rows (snd (apply_op s x))) + (if deletes s x then 1 else 0) =
         length (rows s) + (if creates s x then 1 else 0)"
    by simp_all
  from Cons.IH [OF ok'] step show ?case
    by (simp split: if_splits)
qed

lemma store_ok_run: "store_ok (run empty_store ops)"
  using run_count [OF store_ok_empty] by simp

section \<open>The content type check\<close>

text \<open>
  Claim C10. The content type check is an exact string equality on the
  \<^verbatim>\<open>Content-Type\<close> header: the check passes exactly when the header was sent and is
  the string \<^verbatim>\<open>application/json\<close>. A Create or an Update whose header is
  \<^verbatim>\<open>application/json; charset=utf-8\<close>, which declares JSON, or that sends no
  \<^verbatim>\<open>Content-Type\<close> header at all, is answered with 415, whatever the body, the id
  and the store are, and the store is left as it was.
\<close>

theorem content_type_exact_equality:
  "(check_content_type req ''application/json'' = Inr () \<longleftrightarrow>
      map_of (headers req) ''Content-Type'' = Some ''application/json'') \<and>
   create_account s
       \<lparr>headers = [(''Content-Type'', ''application/json; charset=utf-8'')], body = b\<rparr> =
     (Inl (Abort 415 (ContentTypeMustBe ''application/json'')), s) \<and>
   update_account s i
       \<lparr>headers = [(''Content-Type'', ''application/json; charset=utf-8'')], body = b\<rparr> =
     (Inl (Abort 415 (ContentTypeMustBe ''application/json'')), s) \<and>
   create_account s \<lparr>headers = [], body = b\<rparr> =
     (Inl (Abort 415 (ContentTypeMustBe ''application/json'')), s) \<and>
   update_account s i \<lparr>headers = [], body = b\<rparr> =
     (Inl (Abort 415 (ContentTypeMustBe ''application/json'')), s)"
  by (simp add: check_content_type_def create_account_def update_account_def)

text \<open>
  Claim C4. A Create whose \<^verbatim>\<open>Content-Type\<close> header is not \<^verbatim>\<open>application/json\<close>
  (in particular every request that does not declare JSON) fails with 415 and leaves
  the store as it was. The hypothesis is on the headers alone: the body \<open>b\<close> is
  arbitrary, decodable or not, so the answer is given before the body is looked at and
  does not depend on it.
\<close>

theorem create_unsupported_media_type:
  assumes "map_of (headers req) ''Content-Type'' \<noteq> Some ''application/json''"
  shows "create_account s (req\<lparr>body := b\<rparr>) =
           (Inl (Abort 415 (ContentTypeMustBe ''application/json'')), s) \<and>
         status_of (fst (create_account s (req\<lparr>body := b\<rparr>))) = 415"
  using assms by (simp add: create_account_def check_content_type_def status_of_def)

theorem create_unsupported_media_type_witness:
  "map_of (headers html_request) ''Content-Type'' \<noteq> Some ''application/json'' \<and>
   create_account empty_store html_request =
     (Inl (Abort 415 (ContentTypeMustBe ''application/json'')), empty_store) \<and>
   create_account empty_store (html_request\<lparr>body := None\<rparr>) =
     (Inl (Abort 415 (ContentTypeMustBe ''application/json'')), empty_store)"
  using create_unsupported_media_type [of html_request empty_store "Some jane_json"]
    create_unsupported_media_type [of html_request empty_store None]
  by (simp add: html_request_def)

text \<open>
  Claim C9. Update checks the content type before it looks for the record: a
  \<^verbatim>\<open>PUT\<close> whose \<^verbatim>\<open>Content-Type\<close> header is not \<^verbatim>\<open>application/json\<close> is answered
  with 415 for every id and every store, also when no record has that id, and never
  with 404; the store is left as it was.
\<close>

theorem update_checks_content_type_first:
  assumes "map_of (headers req) ''Content-Type'' \<noteq> Some ''application/json''"
  shows "update_account s account_id req =
           (Inl (Abort 415 (ContentTypeMustBe ''application/json'')), s) \<and>
         status_of (fst (update_account s account_id req)) = 415 \<and>
         status_of (fst (update_account s account_id req)) \<noteq> 404"
  using assms by (simp add: update_account_def check_content_type_def status_of_def)

theorem update_checks_content_type_first_witness:
  "map_of (headers html_request) ''Content-Type'' \<noteq> Some ''application/json'' \<and>
   Account_find empty_store 999999 = None \<and>
   update_account empty_store 999999 html_request =
     (Inl (Abort 415 (ContentTypeMustBe ''application/json'')), empty_store)"
  using update_checks_content_type_first [of html_request empty_store 999999]
  by (simp add: html_request_def Account_find_def empty_store_def)

section \<open>Delete and Read\<close>

text \<open>
  Claim C2. For every id and every store, Delete answers 204 with an empty body,
  whether or not a record has that id. When no record has the id the store is left as
  it was. After a Delete no record has the id, so a second Delete of the same id gives
  the same 204 with an empty body and writes nothing.
\<close>

theorem delete_account_idempotent:
  "fst (delete_account s i) = Inr \<lparr>status_code = 204, data = None, location = None\<rparr> \<and>
   (Account_find s i = None \<longrightarrow> snd (delete_account s i) = s) \<and>
   Account_find (snd (delete_account s i)) i = None \<and>
   delete_account (snd (delete_account s i)) i =
     (Inr \<lparr>status_code = 204, data = None, location = None\<rparr>, snd (delete_account s i))"
proof -
  have response: "fst (delete_account s i) =
      Inr \<lparr>status_code = 204, data = None, location = None\<rparr>" for s
    by (simp add: delete_account_def split: option.splits)
  have no_write: "Account_find s i = None \<Longrightarrow> snd (delete_account s i) = s" for s
    by (simp add: delete_account_def)
  have gone: "Account_find (snd (delete_account s i)) i = None"
    by (simp add: delete_account_def Account_find_delete split: option.splits)
  have "delete_account (snd (delete_account s i)) i =
     (fst (delete_account (snd (delete_account s i)) i),
      snd (delete_account (snd (delete_account s i)) i))"
    by simp
  with response no_write gone show ?thesis
    by metis
qed

theorem delete_account_idempotent_witness:
  "Account_find empty_store 999999 = None \<and>
   delete_account empty_store 999999 =
     (Inr \<lparr>status_code = 204, data = None, location = None\<rparr>, empty_store) \<and>
   Account_find store1 1 = Some jane \<and>
   fst (delete_account store1 1) = Inr \<lparr>status_code = 204, data = None, location = None\<rparr> \<and>
   fst (delete_account (snd (delete_account store1 1)) 1) =
     Inr \<lparr>status_code = 204, data = None, location = None\<rparr>"
  using delete_account_idempotent [of empty_store 999999]
    delete_account_idempotent [of store1 1]
  by (simp add: Account_find_def empty_store_def store1_def jane_def prod_eq_iff)

text \<open>
  Claim C3. For every id, Read answers 200 with the serialized record when a record
  of the table has that id (the record that \<^verbatim>\<open>Account.find\<close> returns), and fails with
  404 when none has; in both cases the store is left as it was.
\<close>

theorem get_account_read:
  "(Account_find s i = Some a \<longrightarrow>
      get_account s i =
        (Inr \<lparr>status_code = 200, data = Some (serialize a), location = None\<rparr>, s) \<and>
      a \<in> set (rows s) \<and> id_field a = Some i) \<and>
   (Account_find s i = None \<longrightarrow>
      get_account s i = (Inl (Abort 404 (AccountNotFound i)), s) \<and>
      status_of (fst (get_account s i)) = 404) \<and>
   (Account_find s i = None \<longleftrightarrow> Some i \<notin> set (map id_field (rows s))) \<and>
   snd (get_account s i) = s"
proof -
  have found: "Account_find s i = Some a \<longrightarrow>
      get_account s i =
        (Inr \<lparr>status_code = 200, data = Some (serialize a), location = None\<rparr>, s) \<and>
      a \<in> set (rows s) \<and> id_field a = Some i"
    by (simp add: get_account_def Account_find_Some)
  have missing: "Account_find s i = None \<longrightarrow>
      get_account s i = (Inl (Abort 404 (AccountNotFound i)), s) \<and>
      status_of (fst (get_account s i)) = 404"
    by (simp add: get_account_def status_of_def)
  have pure: "snd (get_account s i) = s"
    by (simp add: get_account_def split: option.splits)
  from found missing pure Account_find_None [of s i] show ?thesis
    by blast
qed

theorem get_account_read_witness:
  "Account_find store1 1 = Some jane \<and>
   get_account store1 1 =
     (Inr \<lparr>status_code = 200, data = Some (serialize jane), location = None\<rparr>, store1) \<and>
   Account_find store1 999999 = None \<and>
   get_account store1 999999 = (Inl (Abort 404 (AccountNotFound 999999)), store1)"
  using get_account_read [of store1 1 jane] get_account_read [of store1 999999 jane]
  by (simp add: Account_find_def store1_def jane_def)

section \<open>Create\<close>

text \<open>
  Claim C1. Let the store be one that the service can reach, and let a Create be sent
  as \<^verbatim>\<open>application/json\<close> with a valid Account payload: an object whose name is a
  non-empty string, whose email is a string and whose optional fields are absent, null
  or strings. Then Create answers 201 with the record \<open>r\<close> that carries the payload's
  field values and the id \<open>i\<close> that the store assigned, and Read on \<open>i\<close> in the
  resulting store (also when reached through the \<^verbatim>\<open>Location\<close> URL) answers 200 with
  the same record.
\<close>

theorem create_then_read:
  assumes ok: "store_ok s"
    and ct: "map_of (headers req) ''Content-Type'' = Some ''application/json''"
    and b: "body req = Some (JObject kvs)"
    and n: "map_of kvs ''name'' = Some (JString n)" and ne: "n \<noteq> []"
    and e: "map_of kvs ''email'' = Some (JString e)"
    and ad: "optional kvs ''address'' = Some ad"
    and ph: "optional kvs ''phone'' = Some ph"
    and dj: "optional kvs ''date_joined'' = Some dj"
  shows "(let i = next_id s;
              r = \<lparr>id_field = Some i, name = n, email = e, address = ad, phone = ph,
                   date_joined = dj\<rparr>;
              s' = s\<lparr>rows := rows s @ [r], next_id := i + 1\<rparr>
          in create_account s req =
               (Inr \<lparr>status_code = 201, data = Some (serialize r),
                     location = Some (AccountsId i)\<rparr>, s') \<and>
             get_account s' i =
               (Inr \<lparr>status_code = 200, data = Some (serialize r), location = None\<rparr>, s') \<and>
             http_get s' (AccountsId i) = get_account s' i)"
proof -
  define a where "a = \<lparr>id_field = None, name = n, email = e, address = ad, phone = ph,
     date_joined = dj\<rparr>"
  have d: "deserialize Account (JObject kvs) = Inr a"
    using deserialize_ok [OF n e ad ph dj, of Account] by (simp add: a_def Account_def)
  have c: "create_account s req =
    (Inr \<lparr>status_code = 201, data = Some (serialize (a\<lparr>id_field := Some (next_id s)\<rparr>)),
          location = Some (AccountsId (next_id s))\<rparr>,
     snd (Account_create a s))"
    by (rule create_account_ok [OF ct b d])
  have f: "Account_find (snd (Account_create a s)) (next_id s) = Some (fst (Account_create a s))"
    by (rule Account_find_create [OF store_ok_fresh [OF ok]])
  have g: "get_account (snd (Account_create a s)) (next_id s) =
      (Inr \<lparr>status_code = 200, data = Some (serialize (fst (Account_create a s))),
            location = None\<rparr>, snd (Account_create a s))"
    by (simp add: get_account_def f)
  have p: "0 \<le> next_id s"
    using ok by (simp add: store_ok_def)
  have h: "http_get s'' (AccountsId (next_id s)) = get_account s'' (next_id s)" for s''
    using p by (simp add: http_get_def)
  from c g h show ?thesis
    by (simp add: Let_def Account_create_rows a_def)
qed

theorem create_then_read_witness:
  "store_ok empty_store \<and>
   create_account empty_store jane_request =
     (Inr \<lparr>status_code = 201, data = Some (serialize jane), location = Some (AccountsId 1)\<rparr>,
      store1) \<and>
   get_account store1 1 =
     (Inr \<lparr>status_code = 200, data = Some (serialize jane), location = None\<rparr>, store1) \<and>
   http_get store1 (AccountsId 1) = get_account store1 1"
  using create_then_read [of empty_store jane_request
      "[(''name'', JString ''Jane Doe''), (''email'', JString ''jane@example.com'')]"
      "''Jane Doe''" "''jane@example.com''" None None None]
  by (simp add: store_ok_def empty_store_def jane_request_def jane_json_def optional_def
      Let_def jane_def store1_def)

text \<open>
  Claim C5. From a store that the service can reach, a Create succeeds exactly when it
  is sent as \<^verbatim>\<open>application/json\<close> with a body that decodes and that
  \<^verbatim>\<open>deserialize\<close> accepts. Every such Create answers 201 with the full serialized
  record \<open>r\<close> as body, where \<open>r\<close> is the deserialized account under the id \<open>i\<close> that
  the store assigned, and with a \<^verbatim>\<open>Location\<close> header that is the URL of the Read
  endpoint for \<open>i\<close>. No record had the id before, the table has gained exactly the
  record \<open>r\<close>, and a \<^verbatim>\<open>GET\<close> of the \<^verbatim>\<open>Location\<close> URL answers 200 with \<open>r\<close>.
\<close>

theorem create_account_success:
  assumes ok: "store_ok s"
  shows "(create_account s req = (Inr resp, s') \<longrightarrow>
            (\<exists>d a. map_of (headers req) ''Content-Type'' = Some ''application/json'' \<and>
                   body req = Some d \<and> deserialize Account d = Inr a)) \<and>
         (map_of (headers req) ''Content-Type'' = Some ''application/json'' \<and>
          body req = Some d \<and> deserialize Account d = Inr a \<longrightarrow>
            (let i = next_id s;
                 r = a\<lparr>id_field := Some i\<rparr>;
                 s' = s\<lparr>rows := rows s @ [r], next_id := i + 1\<rparr>
             in create_account s req =
                  (Inr \<lparr>status_code = 201, data = Some (serialize r),
                        location = Some (AccountsId i)\<rparr>, s') \<and>
                url_for_get_account (id_field r) = Inr (AccountsId i) \<and>
                Account_find s i = None \<and>
                Account_find s' i = Some r \<and>
                store_ok s' \<and>
                http_get s' (AccountsId i) =
                  (Inr \<lparr>status_code = 200, data = Some (serialize r), location = None\<rparr>,
                   s')))"
proof (intro conjI impI)
  assume "create_account s req = (Inr resp, s')"
  then show "\<exists>d a. map_of (headers req) ''Content-Type'' = Some ''application/json'' \<and>
                 body req = Some d \<and> deserialize Account d = Inr a"
    by (rule create_account_Inr)
next
  assume h: "map_of (headers req) ''Content-Type'' = Some ''application/json'' \<and>
          body req = Some d \<and> deserialize Account d = Inr a"
  then have ct: "map_of (headers req) ''Content-Type'' = Some ''application/json''"
    and b: "body req = Some d" and d: "deserialize Account d = Inr a"
    by simp_all
  let ?r = "fst (Account_create a s)" and ?s' = "snd (Account_create a s)"
  have c: "create_account s req =
      (Inr \<lparr>status_code = 201, data = Some (serialize ?r),
            location = Some (AccountsId (next_id s))\<rparr>, ?s')"
    using create_account_ok [OF ct b d, of s] by (simp add: Account_create_rows)
  have u: "url_for_get_account (id_field ?r) = Inr (AccountsId (next_id s))"
    by (simp add: url_for_get_account_def Account_create_rows)
  have fresh: "Account_find s (next_id s) = None"
    by (rule store_ok_fresh [OF ok])
  have f: "Account_find ?s' (next_id s) = Some ?r"
    by (rule Account_find_create [OF fresh])
  have p: "0 \<le> next_id s"
    using ok by (simp add: store_ok_def)
  have g: "http_get ?s' (AccountsId (next_id s)) =
      (Inr \<lparr>status_code = 200, data = Some (serialize ?r), location = None\<rparr>, ?s')"
    using p by (simp add: http_get_def get_account_def f)
  have ok': "store_ok ?s'"
    by (rule store_ok_create [OF ok])
  from c u fresh f g ok'
  show "(let i = next_id s;
                 r = a\<lparr>id_field := Some i\<rparr>;
                 s' = s\<lparr>rows := rows s @ [r], next_id := i + 1\<rparr>
             in create_account s req =
                  (Inr \<lparr>status_code = 201, data = Some (serialize r),
                        location = Some (AccountsId i)\<rparr>, s') \<and>
                url_for_get_account (id_field r) = Inr (AccountsId i) \<and>
                Account_find s i = None \<and>
                Account_find s' i = Some r \<and>
                store_ok s' \<and>
                http_get s' (AccountsId i) =
                  (Inr \<lparr>status_code = 200, data = Some (serialize r), location = None\<rparr>,
                   s'))"
    by (simp add: Let_def Account_create_rows)
qed

theorem create_account_success_witness:
  "store_ok empty_store \<and>
   map_of (headers jane_request) ''Content-Type'' = Some ''application/json'' \<and>
   body jane_request = Some jane_json \<and>
   deserialize Account jane_json = Inr (jane\<lparr>id_field := None\<rparr>) \<and>
   create_account empty_store jane_request =
     (Inr \<lparr>status_code = 201, data = Some (serialize jane), location = Some (AccountsId 1)\<rparr>,
      store1) \<and>
   Account_find empty_store 1 = None \<and>
   Account_find store1 1 = Some jane \<and>
   store_ok store1 \<and>
   http_get store1 (AccountsId 1) =
     (Inr \<lparr>status_code = 200, data = Some (serialize jane), location = None\<rparr>, store1)"
proof -
  have d: "deserialize Account jane_json = Inr (jane\<lparr>id_field := None\<rparr>)"
    by (simp add: deserialize_def required_def optional_def Account_def jane_json_def jane_def)
  have r: "jane\<lparr>id_field := Some 1\<rparr> = jane"
    by (simp add: jane_def)
  have s: "empty_store\<lparr>rows := rows empty_store @ [jane], next_id := 2\<rparr> = store1"
    by (simp add: empty_store_def store1_def)
  have n: "next_id empty_store = 1"
    by (simp add: empty_store_def)
  from create_account_success [OF store_ok_empty, of jane_request _ _ jane_json
      "jane\<lparr>id_field := None\<rparr>"] d store_ok_empty
  show ?thesis
    by (simp add: Let_def n r s jane_request_def)
qed

section \<open>Update and the validation of the body\<close>

text \<open>
  Claim C6, as the code has it. An Update answers 404 for a missing record only once
  the content type check has passed, and answers 200 for an existing record only when
  the body is accepted. At the inputs below the claim as written fails: an Update sent
  as \<^verbatim>\<open>text/html\<close> for an id that no record has is answered with 415, not 404, and an
  Update of an existing record whose body lacks the name is answered with 400, not 200.
\<close>

theorem update_account_counterexample:
  "Account_find empty_store 999999 = None \<and>
   update_account empty_store 999999 html_request =
     (Inl (Abort 415 (ContentTypeMustBe ''application/json'')), empty_store) \<and>
   status_of (fst (update_account empty_store 999999 html_request)) \<noteq> 404 \<and>
   Account_find store1 1 = Some jane \<and>
   update_account store1 1 no_name = (Inl (Abort 400 InvalidAccount), store1) \<and>
   status_of (fst (update_account store1 1 no_name)) \<noteq> 200"
  by (simp add: update_account_def check_content_type_def get_json_def deserialize_def
      required_def status_of_def Account_find_def empty_store_def store1_def jane_def
      html_request_def no_name_def)

text \<open>
  Claim C6, amended. For every Update whose \<^verbatim>\<open>Content-Type\<close> header is
  \<^verbatim>\<open>application/json\<close>: when no record has the id, the Update fails with 404 and the
  store is left as it was; when a record has the id and the body is a valid Account
  payload, the answer is 200 with the serialized record \<open>r\<close> whose fields are all
  taken from the body (an optional field that the body leaves out takes its default)
  under the old id, the store then holds \<open>r\<close> under that id, and every other
  record, the ids of the table and the id counter are as before.
\<close>

theorem update_account_behaviour:
  assumes ct: "map_of (headers req) ''Content-Type'' = Some ''application/json''"
  shows "(Account_find s i = None \<longrightarrow>
            update_account s i req = (Inl (Abort 404 (AccountNotFound i)), s)) \<and>
         (Account_find s i = Some a \<and> body req = Some (JObject kvs) \<and>
          map_of kvs ''name'' = Some (JString n) \<and>
          map_of kvs ''email'' = Some (JString e) \<and>
          optional kvs ''address'' = Some ad \<and>
          optional kvs ''phone'' = Some ph \<and>
          optional kvs ''date_joined'' = Some dj \<longrightarrow>
            (let r = \<lparr>id_field = Some i, name = n, email = e, address = ad, phone = ph,
                      date_joined = dj\<rparr>;
                 s' = snd (update_account s i req)
             in fst (update_account s i req) =
                  Inr \<lparr>status_code = 200, data = Some (serialize r), location = None\<rparr> \<and>
                Account_find s' i = Some r \<and>
                (\<forall>j. j \<noteq> i \<longrightarrow> Account_find s' j = Account_find s j) \<and>
                map id_field (rows s') = map id_field (rows s) \<and>
                next_id s' = next_id s))"
proof (intro conjI impI)
  assume "Account_find s i = None"
  with ct show "update_account s i req = (Inl (Abort 404 (AccountNotFound i)), s)"
    by (simp add: update_account_def check_content_type_def)
next
  assume h: "Account_find s i = Some a \<and> body req = Some (JObject kvs) \<and>
          map_of kvs ''name'' = Some (JString n) \<and>
          map_of kvs ''email'' = Some (JString e) \<and>
          optional kvs ''address'' = Some ad \<and>
          optional kvs ''phone'' = Some ph \<and>
          optional kvs ''date_joined'' = Some dj"
  define r where "r = \<lparr>id_field = Some i, name = n, email = e, address = ad, phone = ph,
                      date_joined = dj\<rparr>"
  from h have f: "Account_find s i = Some a" and b: "body req = Some (JObject kvs)"
    by simp_all
  from f have ia: "id_field a = Some i"
    by (simp add: Account_find_Some)
  from h have d: "deserialize a (JObject kvs) = Inr r"
    by (simp add: deserialize_ok ia r_def)
  have ir: "id_field r = Some i"
    by (simp add: r_def)
  have u: "update_account s i req =
      (Inr \<lparr>status_code = 200, data = Some (serialize r), location = None\<rparr>,
       Account_update r s)"
    using ct f b d by (simp add: update_account_def check_content_type_def get_json_def)
  have found: "Account_find (Account_update r s) i = Some r"
    by (rule Account_find_update [OF f ir])
  have others: "\<forall>j. j \<noteq> i \<longrightarrow> Account_find (Account_update r s) j = Account_find s j"
    by (simp add: Account_find_update_other [OF ir])
  have ids: "map id_field (rows (Account_update r s)) = map id_field (rows s)"
    using map_id_field_update [OF ir, of "rows s"] by (simp add: Account_update_def ir)
  have counter: "next_id (Account_update r s) = next_id s"
    by (simp add: Account_update_def)
  from u found others ids counter
  show "(let r = \<lparr>id_field = Some i, name = n, email = e, address = ad, phone = ph,
                      date_joined = dj\<rparr>;
                 s' = snd (update_account s i req)
             in fst (update_account s i req) =
                  Inr \<lparr>status_code = 200, data = Some (serialize r), location = None\<rparr> \<and>
                Account_find s' i = Some r \<and>
                (\<forall>j. j \<noteq> i \<longrightarrow> Account_find s' j = Account_find s j) \<and>
                map id_field (rows s') = map id_field (rows s) \<and>
                next_id s' = next_id s)"
    by (simp add: Let_def r_def)
qed

theorem update_account_behaviour_witness:
  "map_of (headers jane_update) ''Content-Type'' = Some ''application/json'' \<and>
   Account_find store1 999999 = None \<and>
   update_account store1 999999 jane_update =
     (Inl (Abort 404 (AccountNotFound 999999)), store1) \<and>
   Account_find store1 1 = Some jane \<and>
   fst (update_account store1 1 jane_update) =
     Inr \<lparr>status_code = 200, data = Some (serialize jane_updated), location = None\<rparr> \<and>
   Account_find (snd (update_account store1 1 jane_update)) 1 = Some jane_updated"
  using update_account_behaviour [of jane_update store1 999999]
    update_account_behaviour [of jane_update store1 1 jane
      "[(''name'', JString ''Updated Name''), (''email'', JString ''jane@example.com''),
        (''phone'', JString ''555-0100'')]"
      "''Updated Name''" "''jane@example.com''" None "Some ''555-0100''" None]
  by (simp add: jane_update_def jane_updated_def Account_find_def store1_def jane_def
      optional_def Let_def)

text \<open>
  Claim C7, as the code has it. A body that lacks the name is answered with 400 only
  when the request gets as far as the deserialization. At the inputs below the claim as
  written fails: an Update with such a body for an id that no record has is answered
  with 404, and a Create with such a body sent as
  \<^verbatim>\<open>application/json; charset=utf-8\<close> is answered with 415.
\<close>

theorem missing_name_counterexample:
  "Account_find empty_store 999999 = None \<and>
   update_account empty_store 999999 no_name =
     (Inl (Abort 404 (AccountNotFound 999999)), empty_store) \<and>
   status_of (fst (update_account empty_store 999999 no_name)) \<noteq> 400 \<and>
   create_account empty_store no_name_charset =
     (Inl (Abort 415 (ContentTypeMustBe ''application/json'')), empty_store) \<and>
   status_of (fst (create_account empty_store no_name_charset)) \<noteq> 400"
  by (simp add: update_account_def create_account_def check_content_type_def status_of_def
      Account_find_def empty_store_def no_name_def no_name_charset_def)

text \<open>
  Claim C7, amended. For every request whose \<^verbatim>\<open>Content-Type\<close> header is
  \<^verbatim>\<open>application/json\<close> and whose body is a JSON object without the member
  \<^verbatim>\<open>name\<close>: Create fails with 400 and the store is left as it was, so no record is
  added; Update of an id that a record has fails with 400 and the store is left as it
  was, so the record is unchanged.
\<close>

theorem missing_name_bad_request:
  assumes ct: "map_of (headers req) ''Content-Type'' = Some ''application/json''"
    and b: "body req = Some (JObject kvs)"
    and n: "map_of kvs ''name'' = None"
  shows "create_account s req = (Inl (Abort 400 InvalidAccount), s) \<and>
         status_of (fst (create_account s req)) = 400 \<and>
         (Account_find s i = Some a \<longrightarrow>
            update_account s i req = (Inl (Abort 400 InvalidAccount), s) \<and>
            status_of (fst (update_account s i req)) = 400 \<and>
            Account_find (snd (update_account s i req)) i = Some a)"
  using ct b deserialize_missing_name [OF n]
  by (simp add: create_account_def update_account_def check_content_type_def get_json_def
      status_of_def)

theorem missing_name_bad_request_witness:
  "map_of (headers no_name) ''Content-Type'' = Some ''application/json'' \<and>
   body no_name = Some (JObject [(''email'', JString ''jane@example.com'')]) \<and>
   create_account store1 no_name = (Inl (Abort 400 InvalidAccount), store1) \<and>
   Account_find store1 1 = Some jane \<and>
   update_account store1 1 no_name = (Inl (Abort 400 InvalidAccount), store1)"
  using missing_name_bad_request [of no_name "[(''email'', JString ''jane@example.com'')]"
      store1 1 jane]
  by (simp add: no_name_def Account_find_def store1_def jane_def)

section \<open>List\<close>

text \<open>
  Claim C8. List answers 200 with the array of the serialized forms of all the
  records of the table, in every store; the array is empty when the table is. After
  any sequence of requests run from the empty store, the length of the array plus the
  number of records deleted is the number of records created.
\<close>

theorem list_accounts_all:
  "list_accounts s =
     (Inr \<lparr>status_code = 200, data = Some (JArray (map serialize (rows s))),
           location = None\<rparr>, s) \<and>
   (rows s = [] \<longrightarrow>
      fst (list_accounts s) =
        Inr \<lparr>status_code = 200, data = Some (JArray []), location = None\<rparr>) \<and>
   (\<exists>xs. fst (list_accounts (run empty_store ops)) =
            Inr \<lparr>status_code = 200, data = Some (JArray xs), location = None\<rparr> \<and>
          length xs + deleted empty_store ops = created empty_store ops)"
proof -
  have l: "list_accounts s =
     (Inr \<lparr>status_code = 200, data = Some (JArray (map serialize (rows s))),
           location = None\<rparr>, s)" for s
    by (simp add: list_accounts_def Account_all_def)
  from run_count [OF store_ok_empty, of ops]
  have "length (rows (run empty_store ops)) + deleted empty_store ops = created empty_store ops"
    by (simp add: empty_store_def)
  with l show ?thesis
    by simp
qed

lemma sample_ops_created: "created empty_store sample_ops = 2"
  by (simp add: sample_ops_def creates_def apply_op_def status_of_def
      create_account_def update_account_def delete_account_def check_content_type_def
      get_json_def deserialize_def required_def optional_def Account_create_def
      Account_update_def Account_delete_def Account_find_def url_for_get_account_def
      Account_def Let_def empty_store_def jane_request_def jane_json_def jane_update_def
      no_name_def)

lemma sample_ops_deleted: "deleted empty_store sample_ops = 1"
  by (simp add: sample_ops_def deletes_def apply_op_def status_of_def
      create_account_def update_account_def delete_account_def check_content_type_def
      get_json_def deserialize_def required_def optional_def Account_create_def
      Account_update_def Account_delete_def Account_find_def url_for_get_account_def
      Account_def Let_def empty_store_def jane_request_def jane_json_def jane_update_def
      no_name_def)

theorem list_accounts_all_witness:
  "rows empty_store = [] \<and>
   fst (list_accounts empty_store) =
     Inr \<lparr>status_code = 200, data = Some (JArray []), location = None\<rparr> \<and>
   created empty_store sample_ops = 2 \<and>
   deleted empty_store sample_ops = 1 \<and>
   (\<exists>xs. fst (list_accounts (run empty_store sample_ops)) =
            Inr \<lparr>status_code = 200, data = Some (JArray xs), location = None\<rparr> \<and>
          length xs = 1)"
  using sample_ops_created sample_ops_deleted list_accounts_all [of empty_store sample_ops]
  by (auto simp: empty_store_def)

end
